theory Spec2Isabelle
  imports Complex_Main "HOL-Library.Word"
begin

section \<open>The avatar models of \<^verbatim>\<open>app/avatar/models.py\<close>\<close>

text \<open>
  The module is glue over Django's ORM and file fields, the image libraries and the helpers
  of \<^verbatim>\<open>avatar/utils.py\<close>. The embedding keeps the control flow of every
  method (guards, try/except blocks, early returns, order of the calls) and takes what lives
  outside \<^verbatim>\<open>models.py\<close> as the fields of an environment record:
  \<^item> the helpers \<^verbatim>\<open>dhash\<close>, \<^verbatim>\<open>convert_wand\<close>,
    \<^verbatim>\<open>convert_img\<close>, \<^verbatim>\<open>get_temp_image_file\<close>,
    \<^verbatim>\<open>build_avatar_component\<close>, PIL's \<^verbatim>\<open>Image.open\<close> and
    the composition library's \<^verbatim>\<open>Figure(...).save\<close> may raise, so each returns
    \<open>exn + result\<close>;
  \<^item> the storage backend (\<^verbatim>\<open>storage.save\<close>, \<^verbatim>\<open>storage.url\<close>)
    and the ORM (the table of stored avatars, \<^verbatim>\<open>filter(...).last()\<close>,
    \<^verbatim>\<open>instance.save()\<close>) are taken to be reliable: they are total;
  \<^item> the operating system's entropy is an infinite tape of bytes, read by
    \<^verbatim>\<open>secrets.token_hex\<close> through a position kept in the state.
  Only exceptions deriving from \<^verbatim>\<open>Exception\<close> are modelled.
\<close>

subsection \<open>Data\<close>

type_synonym bytes = "8 word list"

text \<open>
  Exceptions: \<open>ValueError\<close> is what a Django \<^verbatim>\<open>FieldFile\<close> raises when it
  has no file, \<open>AttributeError\<close> is an attribute read on \<^verbatim>\<open>None\<close> or on a
  value without that attribute, \<open>External\<close> is any exception of a library.
\<close>

datatype exn = ValueError | AttributeError | External string

text \<open>
  \<^verbatim>\<open>dashboard.Profile\<close> is not part of the module; it is used through its identity
  (the primary key the foreign key stores) and its \<^verbatim>\<open>handle\<close>.
\<close>

record Profile =
  pk :: nat
  handle :: string

text \<open>
  A file as a \<^verbatim>\<open>FieldFile\<close> or \<^verbatim>\<open>ContentFile\<close> holds it: a name and
  the content. A file field of a model is \<open>File option\<close>, \<open>None\<close> for the null field.
\<close>

record File =
  fname :: string
  fdata :: bytes

text \<open>
  The value of the \<^verbatim>\<open>JSONField\<close>: any Python object JSON can hold (floats left
  out). A dict is an association list in the dict's iteration order, its keys distinct.
\<close>

datatype json =
  JNull
  | JBool bool
  | JInt int
  | JStr string
  | JList "json list"
  | JObj "(string \<times> json) list"

text \<open>
  \<^verbatim>\<open>BaseAvatar\<close> (lines 42-58): the fields the model declares, and the primary key
  Django adds. \<^verbatim>\<open>CustomAvatar\<close> (lines 126-128) extends it;
  \<^verbatim>\<open>SocialAvatar\<close> adds no field. The timestamps of
  \<^verbatim>\<open>economy.models.SuperModel\<close> play no part in the module and are left out.
\<close>

record BaseAvatar =
  avatar_id :: "nat option"
  active :: bool
  profile :: "Profile option"
  svg :: "File option"
  png :: "File option"
  hash :: string

record CustomAvatar = BaseAvatar +
  recommended_by_staff :: bool
  config :: json

type_synonym SocialAvatar = BaseAvatar

text \<open>
  What a method returns is an object of one of the three classes: a query on
  \<^verbatim>\<open>BaseAvatar.objects\<close> yields \<^verbatim>\<open>BaseAvatar\<close> instances.
\<close>

datatype avatar_obj =
  BaseAvatarObj BaseAvatar
  | CustomAvatarObj CustomAvatar
  | SocialAvatarObj SocialAvatar

text \<open>The elements handed to \<^verbatim>\<open>svgutils.compose.Figure\<close>.\<close>

datatype 'c element =
  Line "(real \<times> real) list" string string
  | Layer 'c

record 'c figure =
  fig_width :: nat
  fig_height :: nat
  fig_elements :: "'c element list"

text \<open>
  A logging call: level, format string and arguments. \<open>StrOf e\<close> stands for
  \<^verbatim>\<open>str(e)\<close>, \<open>Pk i\<close> for the avatar's primary key.
\<close>

datatype level = ERROR | WARNING

datatype log_arg = StrOf exn | Pk "nat option"

datatype log_record = LogRecord level string "log_arg list"

text \<open>
  The state the methods act on: the rows of the \<^verbatim>\<open>BaseAvatar\<close> table in
  primary-key order, the next key of its sequence, the log, and the position on the
  entropy tape.
\<close>

record world =
  db :: "BaseAvatar list"
  next_pk :: nat
  log_records :: "log_record list"
  rng_pos :: nat

text \<open>The collaborators outside \<^verbatim>\<open>models.py\<close>.\<close>

record ('img, 'c) env =
  dhash :: "'img \<Rightarrow> exn + string"
  convert_wand :: "File option \<Rightarrow> string \<Rightarrow> string \<Rightarrow> exn + bytes option"
  convert_img :: "File option \<Rightarrow> string \<Rightarrow> string \<Rightarrow> exn + bytes option"
  get_temp_image_file :: "'img \<Rightarrow> exn + bytes"
  build_avatar_component :: "string \<Rightarrow> nat \<times> nat \<Rightarrow> exn + 'c"
  image_open :: "bytes \<Rightarrow> exn + 'img"
  figure_save :: "'c figure \<Rightarrow> exn + bytes"
  py_str :: "json \<Rightarrow> string"
  urandom :: "nat \<Rightarrow> 8 word"
  storage_save :: "string \<Rightarrow> bytes \<Rightarrow> string"
  storage_url :: "string \<Rightarrow> string"

subsection \<open>Python and Django primitives\<close>

text \<open>
  \<^verbatim>\<open>FieldFile.__bool__\<close> is \<^verbatim>\<open>bool(self.name)\<close>;
  \<^verbatim>\<open>.url\<close>, \<^verbatim>\<open>.file\<close> and \<^verbatim>\<open>.read()\<close> raise
  \<^verbatim>\<open>ValueError\<close> on a field without a file.
\<close>

definition has_file :: "File option \<Rightarrow> bool" where
  "has_file f = (case f of None \<Rightarrow> False | Some x \<Rightarrow> fname x \<noteq> [])"

definition field_url :: "('img, 'c) env \<Rightarrow> File option \<Rightarrow> exn + string" where
  "field_url e f =
     (case f of
        None \<Rightarrow> Inl ValueError
      | Some x \<Rightarrow> if fname x = [] then Inl ValueError else Inr (storage_url e (fname x)))"

definition field_file :: "File option \<Rightarrow> exn + File" where
  "field_file f =
     (case f of
        None \<Rightarrow> Inl ValueError
      | Some x \<Rightarrow> if fname x = [] then Inl ValueError else Inr x)"

definition field_read :: "File option \<Rightarrow> exn + bytes" where
  "field_read f =
     (case field_file f of Inl e \<Rightarrow> Inl e | Inr x \<Rightarrow> Inr (fdata x))"

text \<open>
  \<^verbatim>\<open>FieldFile.save(name, content, save=False)\<close>: the storage stores the content
  and answers the name it chose (through \<^verbatim>\<open>upload_to=get_upload_filename\<close>).
\<close>

definition field_save :: "('img, 'c) env \<Rightarrow> string \<Rightarrow> bytes \<Rightarrow> File" where
  "field_save e name content = \<lparr>fname = storage_save e name content, fdata = content\<rparr>"

text \<open>
  \<^verbatim>\<open>Model.save()\<close>: an instance without a primary key is inserted under the next
  key of the sequence, one with a key replaces its row.
\<close>

definition model_save :: "world \<Rightarrow> BaseAvatar \<Rightarrow> BaseAvatar \<times> world" where
  "model_save w a =
     (case avatar_id a of
        None \<Rightarrow>
          (let a' = a\<lparr>avatar_id := Some (next_pk w)\<rparr>
           in (a', w\<lparr>db := db w @ [a'], next_pk := Suc (next_pk w)\<rparr>))
      | Some i \<Rightarrow>
          (a, w\<lparr>db := map (\<lambda>r. if avatar_id r = Some i then a else r) (db w)\<rparr>))"

text \<open>\<^verbatim>\<open>QuerySet.last()\<close>: the last row, \<^verbatim>\<open>None\<close> when there is none.\<close>

definition last_row :: "'a list \<Rightarrow> 'a option" where
  "last_row rows = (if rows = [] then None else Some (last rows))"

text \<open>
  \<^verbatim>\<open>secrets.token_hex(n)\<close>: \<open>n\<close> bytes of entropy, each written as two
  lower-case hexadecimal digits.
\<close>

definition hexdigit :: "nat \<Rightarrow> char" where
  "hexdigit n = ''0123456789abcdef'' ! (n mod 16)"

definition hexlify :: "bytes \<Rightarrow> string" where
  "hexlify bs = concat (map (\<lambda>b. [hexdigit (unat b div 16), hexdigit (unat b mod 16)]) bs)"

definition token_hex :: "('img, 'c) env \<Rightarrow> nat \<Rightarrow> world \<Rightarrow> string \<times> world" where
  "token_hex e n w =
     (hexlify (map (urandom e) [rng_pos w ..< rng_pos w + n]), w\<lparr>rng_pos := rng_pos w + n\<rparr>)"

text \<open>
  A value inside an f-string: \<^verbatim>\<open>str\<close> of it. A string is itself,
  \<^verbatim>\<open>None\<close> (also what \<^verbatim>\<open>dict.get\<close> answers for a missing key) is
  \<^verbatim>\<open>'None'\<close>; the other values are rendered by Python (\<open>py_str\<close>).
\<close>

definition fmt :: "('img, 'c) env \<Rightarrow> json option \<Rightarrow> string" where
  "fmt e v =
     (case v of
        None \<Rightarrow> ''None''
      | Some JNull \<Rightarrow> ''None''
      | Some (JStr s) \<Rightarrow> s
      | Some x \<Rightarrow> py_str e x)"

text \<open>The decimal digits of a natural number, as \<^verbatim>\<open>str\<close> writes an int.\<close>

fun str_nat :: "nat \<Rightarrow> string" where
  "str_nat n =
     (if n < 10 then [''0123456789'' ! n]
      else str_nat (n div 10) @ [''0123456789'' ! (n mod 10)])"

declare str_nat.simps [simp del]

text \<open>
  \<^verbatim>\<open>v.get(key)\<close> and \<^verbatim>\<open>v.items()\<close>: on a dict the value or
  \<^verbatim>\<open>None\<close>, and the entries in order; any other JSON value has neither method.
\<close>

definition py_get :: "json \<Rightarrow> string \<Rightarrow> exn + json option" where
  "py_get v key = (case v of JObj kvs \<Rightarrow> Inr (map_of kvs key) | _ \<Rightarrow> Inl AttributeError)"

definition py_items :: "json \<Rightarrow> exn + (string \<times> json) list" where
  "py_items v = (case v of JObj kvs \<Rightarrow> Inr kvs | _ \<Rightarrow> Inl AttributeError)"

subsection \<open>BaseAvatar\<close>

definition ICON_SIZE :: "nat \<times> nat" where
  "ICON_SIZE = (215, 215)"

text \<open>\<^verbatim>\<open>avatar_url\<close> (lines 60-67).\<close>

definition avatar_url :: "('img, 'c) env \<Rightarrow> 'a BaseAvatar_scheme \<Rightarrow> exn + string" where
  "avatar_url e self =
     (if has_file (png self) then field_url e (png self)
      else if has_file (svg self) then field_url e (svg self)
      else Inr [])"

text \<open>\<^verbatim>\<open>calculate_hash\<close> (lines 85-87).\<close>

definition calculate_hash :: "('img, 'c) env \<Rightarrow> 'img \<Rightarrow> exn + string" where
  "calculate_hash e img = dhash e img"

text \<open>
  \<^verbatim>\<open>find_similar\<close> (lines 89-91).
  \<^verbatim>\<open>filter(profile=self.profile, hash=self.hash)\<close> compares the foreign key, that
  is the profile's primary key (\<^verbatim>\<open>NULL\<close> for no profile), and the hash.
\<close>

definition filter_match :: "Profile option \<Rightarrow> string \<Rightarrow> BaseAvatar \<Rightarrow> bool" where
  "filter_match p h r = (map_option pk (profile r) = map_option pk p \<and> hash r = h)"

definition find_similar :: "world \<Rightarrow> 'a BaseAvatar_scheme \<Rightarrow> BaseAvatar option" where
  "find_similar w self =
     (if hash self \<noteq> [] then
        last_row (filter (filter_match (profile self) (hash self)) (db w))
      else None)"

text \<open>
  \<^verbatim>\<open>convert_field\<close> (lines 93-111): first the body of the \<^verbatim>\<open>try\<close>, then
  the method with its handler. A \<^verbatim>\<open>BytesIO\<close> is always true, so
  \<^verbatim>\<open>if tmpfile_io\<close> tests for \<^verbatim>\<open>None\<close>; a model instance is always true,
  so \<^verbatim>\<open>if self.profile\<close> does too.
\<close>

definition convert_field_try ::
  "('img, 'c) env \<Rightarrow> world \<Rightarrow> 'a BaseAvatar_scheme \<Rightarrow> File option \<Rightarrow> string \<Rightarrow> string
     \<Rightarrow> (exn + File option) \<times> world" where
  "convert_field_try e w self source input_fmt output_fmt =
     (case (if output_fmt = ''svg'' then convert_wand e source input_fmt output_fmt
            else convert_img e source input_fmt output_fmt) of
        Inl x \<Rightarrow> (Inl x, w)
      | Inr tmpfile_io \<Rightarrow>
          (let (png_name, w') =
                 (case profile self of
                    Some p \<Rightarrow> (handle p, w)
                  | None \<Rightarrow> token_hex e 8 w)
           in (case tmpfile_io of
                 Some v \<Rightarrow> (Inr (Some \<lparr>fname = png_name @ ''.'' @ output_fmt, fdata = v\<rparr>), w')
               | None \<Rightarrow> (Inr None, w'))))"

definition convert_field ::
  "('img, 'c) env \<Rightarrow> world \<Rightarrow> 'a BaseAvatar_scheme \<Rightarrow> File option \<Rightarrow> string \<Rightarrow> string
     \<Rightarrow> (exn + File option) \<times> world" where
  "convert_field e w self source input_fmt output_fmt =
     (case convert_field_try e w self source input_fmt output_fmt of
        (Inl x, w') \<Rightarrow>
          (Inr None,
           w'\<lparr>log_records := log_records w' @
                [LogRecord ERROR ''Error: (%s) - Avatar PK: (%s)'' [StrOf x, Pk (avatar_id self)]]\<rparr>)
      | (Inr r, w') \<Rightarrow> (Inr r, w'))"

text \<open>\<^verbatim>\<open>determine_response\<close> (lines 113-123).\<close>

definition determine_response :: "'a BaseAvatar_scheme \<Rightarrow> bool \<Rightarrow> exn + File \<times> string" where
  "determine_response self use_svg =
     (if \<not> use_svg then
        (case field_file (png self) of Inl x \<Rightarrow> Inl x | Inr f \<Rightarrow> Inr (f, ''image/png''))
      else
        (case field_file (svg self) of Inl x \<Rightarrow> Inl x | Inr f \<Rightarrow> Inr (f, ''image/svg+xml'')))"

subsection \<open>CustomAvatar\<close>

text \<open>
  \<^verbatim>\<open>create_from_config\<close> (lines 156-189). \<open>component_of\<close> is the call of line
  177 on one value of the configuration; the loop of lines 174-178 appends one component per
  key outside the four colour keys, and a failing call ends it.
\<close>

definition component_of :: "('img, 'c) env \<Rightarrow> json \<Rightarrow> exn + 'c" where
  "component_of e v =
     (case py_get v ''component_type'' of
        Inl x \<Rightarrow> Inl x
      | Inr component_type \<Rightarrow>
          (case py_get v ''svg_asset'' of
             Inl x \<Rightarrow> Inl x
           | Inr svg_asset \<Rightarrow>
               build_avatar_component e
                 (fmt e component_type @ ''/'' @ fmt e svg_asset) ICON_SIZE))"

fun build_layers ::
  "('img, 'c) env \<Rightarrow> (string \<times> json) list \<Rightarrow> 'c element list \<Rightarrow> exn + 'c element list" where
  "build_layers e [] components = Inr components"
| "build_layers e ((k, v) # items) components =
     (if k \<notin> set [''Background'', ''ClothingColor'', ''HairColor'', ''SkinTone''] then
        (case component_of e v of
           Inl x \<Rightarrow> Inl x
         | Inr c \<Rightarrow> build_layers e items (components @ [Layer c]))
      else build_layers e items components)"

text \<open>
  Lines 163-178, and the arguments of \<^verbatim>\<open>Figure(*components)\<close> of line 182: the
  width, the height and the elements. \<^verbatim>\<open>icon_height / 2\<close> is Python's true
  division; it is exact on 215.
\<close>

definition components :: "('img, 'c) env \<Rightarrow> json \<Rightarrow> exn + 'c figure" where
  "components e payload =
     (let icon_width = fst ICON_SIZE; icon_height = snd ICON_SIZE
      in (case py_get payload ''Background'' of
            Inl x \<Rightarrow> Inl x
          | Inr background \<Rightarrow>
              (case py_items payload of
                 Inl x \<Rightarrow> Inl x
               | Inr items \<Rightarrow>
                   (case build_layers e items
                           [Line [(0, real icon_height / 2), (real icon_width, real icon_height / 2)]
                                 (str_nat icon_height @ ''px'')
                                 (''#'' @ fmt e background)] of
                      Inl x \<Rightarrow> Inl x
                    | Inr elements \<Rightarrow>
                        Inr \<lparr>fig_width = icon_width, fig_height = icon_height,
                             fig_elements = elements\<rparr>))))"

definition create_from_config ::
  "('img, 'c) env \<Rightarrow> world \<Rightarrow> CustomAvatar \<Rightarrow> (exn + CustomAvatar) \<times> world" where
  "create_from_config e w self =
     (case components e (config self) of
        Inl x \<Rightarrow> (Inl x, w)
      | Inr avatar \<Rightarrow>
          (case figure_save e avatar of
             Inl x \<Rightarrow> (Inl x, w)
           | Inr content \<Rightarrow>
               (let (svg_name, w') =
                      (case profile self of
                         Some p \<Rightarrow> if handle p \<noteq> [] then (handle p, w) else token_hex e 8 w
                       | None \<Rightarrow> token_hex e 8 w)
                in (Inr (self\<lparr>svg := Some (field_save e (svg_name @ ''.svg'') content)\<rparr>), w'))))"

text \<open>
  The constructor calls \<^verbatim>\<open>cls(profile=profile, config=config_json)\<close> of line 132
  and \<^verbatim>\<open>cls(profile=profile, hash=avatar_hash)\<close> of line 200: the fields not
  named take their defaults (no primary key, inactive, no files, the empty hash).
\<close>

definition init_custom :: "Profile option \<Rightarrow> json \<Rightarrow> CustomAvatar" where
  "init_custom profile' config_json =
     \<lparr>avatar_id = None, active = False, profile = profile', svg = None, png = None,
      hash = [], recommended_by_staff = False, config = config_json\<rparr>"

definition init_social :: "Profile option \<Rightarrow> string \<Rightarrow> SocialAvatar" where
  "init_social profile' avatar_hash =
     \<lparr>avatar_id = None, active = False, profile = profile', svg = None, png = None,
      hash = avatar_hash\<rparr>"

text \<open>
  \<^verbatim>\<open>create\<close> (lines 130-146): the body of the \<^verbatim>\<open>try\<close> mutates the avatar,
  so it answers the avatar as it stands when the block ends or raises.
\<close>

definition create_try ::
  "('img, 'c) env \<Rightarrow> world \<Rightarrow> CustomAvatar
     \<Rightarrow> (exn + BaseAvatar option) \<times> CustomAvatar \<times> world" where
  "create_try e w avatar =
     (case convert_field e w avatar (svg avatar) ''svg'' ''png'' of
        (Inl x, w') \<Rightarrow> (Inl x, avatar, w')
      | (Inr avatar_png, w') \<Rightarrow>
          (let avatar1 = avatar\<lparr>png := avatar_png\<rparr>
           in (case field_read (png avatar1) of
                 Inl x \<Rightarrow> (Inl x, avatar1, w')
               | Inr content \<Rightarrow>
                   (case image_open e content of
                      Inl x \<Rightarrow> (Inl x, avatar1, w')
                    | Inr img \<Rightarrow>
                        (case calculate_hash e img of
                           Inl x \<Rightarrow> (Inl x, avatar1, w')
                         | Inr h \<Rightarrow>
                             (let avatar2 = avatar1\<lparr>hash := h\<rparr>
                              in (Inr (find_similar w' avatar2), avatar2, w')))))))"

definition create ::
  "('img, 'c) env \<Rightarrow> world \<Rightarrow> Profile option \<Rightarrow> json \<Rightarrow> (exn + avatar_obj) \<times> world" where
  "create e w profile' config_json =
     (let avatar = init_custom profile' config_json
      in (case create_from_config e w avatar of
            (Inl x, w1) \<Rightarrow> (Inl x, w1)
          | (Inr avatar1, w1) \<Rightarrow>
              (case create_try e w1 avatar1 of
                 (Inl x, avatar2, w2) \<Rightarrow>
                   (Inr (CustomAvatarObj avatar2),
                    w2\<lparr>log_records := log_records w2 @
                         [LogRecord WARNING ''There was error during avatar conversion'' []]\<rparr>)
               | (Inr (Some similar_avatar), avatar2, w2) \<Rightarrow>
                   (Inr (BaseAvatarObj similar_avatar), w2)
               | (Inr None, avatar2, w2) \<Rightarrow> (Inr (CustomAvatarObj avatar2), w2))))"

text \<open>\<^verbatim>\<open>select\<close> (lines 148-154).\<close>

definition select :: "world \<Rightarrow> CustomAvatar \<Rightarrow> Profile option \<Rightarrow> avatar_obj" where
  "select w self profile' =
     (let new_avatar = \<lparr>avatar_id = None, active = False, profile = profile',
                         svg = svg self, png = png self, hash = hash self,
                         recommended_by_staff = False, config = config self\<rparr>
      in (case find_similar w new_avatar of
            Some similar_avatar \<Rightarrow> BaseAvatarObj similar_avatar
          | None \<Rightarrow> CustomAvatarObj new_avatar))"

subsection \<open>SocialAvatar\<close>

text \<open>
  \<^verbatim>\<open>github_avatar\<close> (lines 197-209). There is no handler. The arguments of
  \<^verbatim>\<open>avatar.png.save\<close> are evaluated left to right: \<^verbatim>\<open>profile.handle\<close>
  (an \<^verbatim>\<open>AttributeError\<close> on \<^verbatim>\<open>None\<close>), then the image's bytes; with
  \<^verbatim>\<open>save=True\<close> the instance is written to the table.
\<close>

definition github_avatar ::
  "('img, 'c) env \<Rightarrow> world \<Rightarrow> Profile option \<Rightarrow> 'img \<Rightarrow> (exn + avatar_obj) \<times> world" where
  "github_avatar e w profile' avatar_img =
     (case calculate_hash e avatar_img of
        Inl x \<Rightarrow> (Inl x, w)
      | Inr avatar_hash \<Rightarrow>
          (let avatar = init_social profile' avatar_hash
           in (case find_similar w avatar of
                 Some similar_avatar \<Rightarrow> (Inr (BaseAvatarObj similar_avatar), w)
               | None \<Rightarrow>
                   (case profile' of
                      None \<Rightarrow> (Inl AttributeError, w)
                    | Some p \<Rightarrow>
                        (case get_temp_image_file e avatar_img of
                           Inl x \<Rightarrow> (Inl x, w)
                         | Inr content \<Rightarrow>
                             (let (avatar1, w1) =
                                    model_save w
                                      (avatar\<lparr>png := Some (field_save e (handle p @ ''.png'') content)\<rparr>)
                              in (case convert_field e w1 avatar1 (png avatar1) ''png'' ''svg'' of
                                    (Inl x, w2) \<Rightarrow> (Inl x, w2)
                                  | (Inr f, w2) \<Rightarrow>
                                      (Inr (SocialAvatarObj (avatar1\<lparr>svg := f\<rparr>)), w2))))))))"

text \<open>
  The entries of a configuration that become layers, as the specification words it: those
  whose key is none of the four colour keys, in the dict's order.
\<close>

definition layer_items :: "(string \<times> json) list \<Rightarrow> (string \<times> json) list" where
  "layer_items items =
     filter (\<lambda>(k, v). k \<notin> {''Background'', ''ClothingColor'', ''HairColor'', ''SkinTone''}) items"

subsection \<open>A concrete environment\<close>

text \<open>
  An environment in which every collaborator succeeds: images are numbers, a component is
  the path it was built from, the storage files every upload under
  \<^verbatim>\<open>avatars/\<close>. The variants below make one collaborator fail.
\<close>

definition demo_env :: "(nat, string) env" where
  "demo_env =
     \<lparr>dhash = (\<lambda>img. Inr ''00ff00ff00ff00ff''),
      convert_wand = (\<lambda>source input_fmt output_fmt. Inr (Some [0x3C, 0x73])),
      convert_img = (\<lambda>source input_fmt output_fmt. Inr (Some [0x89, 0x50])),
      get_temp_image_file = (\<lambda>img. Inr [0x89, 0x50, 0x4E]),
      build_avatar_component = (\<lambda>path icon_size. Inr path),
      image_open = (\<lambda>content. Inr 1),
      figure_save = (\<lambda>fig. Inr [0x3C]),
      py_str = (\<lambda>v. ''?''),
      urandom = (\<lambda>i. 0xAB),
      storage_save = (\<lambda>name content. ''avatars/'' @ name),
      storage_url = (\<lambda>name. ''/media/'' @ name)\<rparr>"

definition hash_fails_env :: "(nat, string) env" where
  "hash_fails_env = demo_env\<lparr>dhash := (\<lambda>img. Inl (External ''cannot hash''))\<rparr>"

definition convert_fails_env :: "(nat, string) env" where
  "convert_fails_env =
     demo_env\<lparr>convert_img := (\<lambda>source input_fmt output_fmt. Inl (External ''cannot convert'')),
               convert_wand := (\<lambda>source input_fmt output_fmt. Inl (External ''cannot convert''))\<rparr>"

definition bytes_fail_env :: "(nat, string) env" where
  "bytes_fail_env =
     demo_env\<lparr>get_temp_image_file := (\<lambda>img. Inl (External ''cannot serialise''))\<rparr>"

definition alice :: Profile where
  "alice = \<lparr>pk = 7, handle = ''alice''\<rparr>"

definition stored_avatar :: BaseAvatar where
  "stored_avatar =
     \<lparr>avatar_id = Some 1, active = True, profile = Some alice,
      svg = Some \<lparr>fname = ''avatars/alice.svg'', fdata = [0x3C]\<rparr>,
      png = Some \<lparr>fname = ''avatars/alice.png'', fdata = [0x89]\<rparr>,
      hash = ''00ff00ff00ff00ff''\<rparr>"

definition empty_world :: world where
  "empty_world = \<lparr>db = [], next_pk = 1, log_records = [], rng_pos = 0\<rparr>"

definition stored_world :: world where
  "stored_world = \<lparr>db = [stored_avatar], next_pk = 2, log_records = [], rng_pos = 0\<rparr>"

definition demo_config :: json where
  "demo_config =
     JObj [(''Background'', JStr ''25E899''),
           (''HairStyle'', JObj [(''component_type'', JStr ''HairStyle''),
                                 (''svg_asset'', JStr ''0-Red.svg'')]),
           (''SkinTone'', JStr ''EEE3C1''),
           (''Ears'', JObj [(''component_type'', JStr ''Ears''),
                            (''svg_asset'', JStr ''1.svg'')])]"

section \<open>Properties\<close>

subsection \<open>The avatar's URL\<close>

text \<open>
  Claim C8. \<^verbatim>\<open>avatar_url\<close> prefers the PNG: it answers the URL of the PNG file
  when the record has a PNG, otherwise the URL of the SVG file when it has an SVG, otherwise
  the empty string. The answer is always a value (\<open>Inr\<close>): the guards keep
  \<^verbatim>\<open>.url\<close> away from a field without a file, so the property never raises.
\<close>

theorem avatar_url_prefers_png:
  "avatar_url e self =
     Inr (if has_file (png self) then storage_url e (fname (the (png self)))
          else if has_file (svg self) then storage_url e (fname (the (svg self)))
          else [])"
  by (auto simp: avatar_url_def has_file_def field_url_def split: option.splits)

theorem avatar_url_prefers_png_witness:
  "avatar_url demo_env stored_avatar = Inr ''/media/avatars/alice.png''
   \<and> avatar_url demo_env (stored_avatar\<lparr>png := None\<rparr>) = Inr ''/media/avatars/alice.svg''
   \<and> avatar_url demo_env (stored_avatar\<lparr>png := None, svg := None\<rparr>) = Inr []"
  using avatar_url_prefers_png [of demo_env stored_avatar]
    avatar_url_prefers_png [of demo_env "stored_avatar\<lparr>png := None\<rparr>"]
    avatar_url_prefers_png [of demo_env "stored_avatar\<lparr>png := None, svg := None\<rparr>"]
  by (simp add: has_file_def stored_avatar_def demo_env_def)

subsection \<open>The guard of the duplicate lookup\<close>

text \<open>
  Claim C9. \<^verbatim>\<open>find_similar\<close> is guarded by the hash: on a record whose hash is
  empty it answers \<^verbatim>\<open>None\<close> whatever the table holds, so no stored avatar (not
  even one of the same profile with an empty hash, as in the witness) is matched.
\<close>

theorem find_similar_guarded:
  "hash self = [] \<Longrightarrow> find_similar w self = None"
  by (simp add: find_similar_def)

theorem find_similar_guarded_witness:
  "hash (stored_avatar\<lparr>hash := []\<rparr>) = []
   \<and> find_similar (stored_world\<lparr>db := [stored_avatar\<lparr>hash := []\<rparr>]\<rparr>)
        (stored_avatar\<lparr>hash := []\<rparr>) = None"
  using find_similar_guarded [of "stored_avatar\<lparr>hash := []\<rparr>"
      "stored_world\<lparr>db := [stored_avatar\<lparr>hash := []\<rparr>]\<rparr>"]
  by simp

subsection \<open>The file to serve\<close>

text \<open>
  Claim C10. \<^verbatim>\<open>determine_response\<close> pairs file and content type by the flag: the
  SVG file with \<^verbatim>\<open>image/svg+xml\<close> when \<^verbatim>\<open>use_svg\<close> is true, the PNG file
  with \<^verbatim>\<open>image/png\<close> otherwise. The chosen file is read unguarded: the call
  answers exactly when that file is present and raises \<^verbatim>\<open>ValueError\<close> when not.
\<close>

theorem determine_response_pairs:
  "determine_response self use_svg =
     (let chosen = (if use_svg then svg self else png self);
          content_type = (if use_svg then ''image/svg+xml'' else ''image/png'')
      in if has_file chosen then Inr (the chosen, content_type) else Inl ValueError)"
  by (auto simp: determine_response_def field_file_def has_file_def Let_def split: option.splits)

theorem determine_response_pairs_witness:
  "determine_response stored_avatar True =
     Inr (\<lparr>fname = ''avatars/alice.svg'', fdata = [0x3C]\<rparr>, ''image/svg+xml'')
   \<and> determine_response stored_avatar False =
     Inr (\<lparr>fname = ''avatars/alice.png'', fdata = [0x89]\<rparr>, ''image/png'')
   \<and> determine_response (stored_avatar\<lparr>png := None\<rparr>) False = Inl ValueError"
  using determine_response_pairs [of stored_avatar True]
    determine_response_pairs [of stored_avatar False]
    determine_response_pairs [of "stored_avatar\<lparr>png := None\<rparr>" False]
  by (simp add: has_file_def stored_avatar_def)

subsection \<open>Converting a field\<close>

lemma hexdigit_in: "hexdigit n \<in> set ''0123456789abcdef''"
  unfolding hexdigit_def by (rule nth_mem) simp

lemma hexlify_length: "length (hexlify bs) = 2 * length bs"
  by (induction bs) (simp_all add: hexlify_def)

lemma hexlify_chars: "set (hexlify bs) \<subseteq> set ''0123456789abcdef''"
  using hexdigit_in by (induction bs) (simp_all add: hexlify_def)

lemma token_hex_length: "length (fst (token_hex e n w)) = 2 * n"
  by (simp add: token_hex_def hexlify_length)

lemma token_hex_chars: "set (fst (token_hex e n w)) \<subseteq> set ''0123456789abcdef''"
  by (simp add: token_hex_def hexlify_chars del: set_simps)

lemma convert_field_result:
  "fst (convert_field e w self source input_fmt output_fmt) =
     Inr (case (if output_fmt = ''svg'' then convert_wand e source input_fmt output_fmt
                else convert_img e source input_fmt output_fmt) of
            Inr (Some v) \<Rightarrow>
              Some \<lparr>fname = (case profile self of
                                Some p \<Rightarrow> handle p
                              | None \<Rightarrow> fst (token_hex e 8 w)) @ ''.'' @ output_fmt,
                    fdata = v\<rparr>
          | _ \<Rightarrow> None)"
  by (simp add: convert_field_def convert_field_try_def
        split: sum.splits option.splits prod.splits)

text \<open>
  Claim C3. \<^verbatim>\<open>convert_field\<close> dispatches on the output format: the answer is
  built from what \<^verbatim>\<open>convert_wand\<close> answers exactly when the output format is
  \<^verbatim>\<open>'svg'\<close>, and from what \<^verbatim>\<open>convert_img\<close> answers otherwise. When the
  converter yields a buffer, the file returned holds it under the name
  \<^verbatim>\<open><profile handle>.<output_fmt>\<close> when the avatar has a profile, and under
  \<^verbatim>\<open><token>.<output_fmt>\<close> otherwise, the token being
  \<^verbatim>\<open>token_hex(8)\<close>: sixteen hexadecimal digits. When the converter yields
  nothing or raises, the answer is \<^verbatim>\<open>None\<close>.
\<close>

theorem convert_field_dispatch:
  "fst (convert_field e w self source input_fmt output_fmt) =
     Inr (case (if output_fmt = ''svg'' then convert_wand e source input_fmt output_fmt
                else convert_img e source input_fmt output_fmt) of
            Inr (Some v) \<Rightarrow>
              Some \<lparr>fname = (case profile self of
                                Some p \<Rightarrow> handle p
                              | None \<Rightarrow> fst (token_hex e 8 w)) @ ''.'' @ output_fmt,
                    fdata = v\<rparr>
          | _ \<Rightarrow> None)
   \<and> length (fst (token_hex e 8 w)) = 16
   \<and> set (fst (token_hex e 8 w)) \<subseteq> set ''0123456789abcdef''"
proof -
  have "length (fst (token_hex e 8 w)) = 16"
    by (simp add: token_hex_length)
  then show ?thesis
    using token_hex_chars [of e 8 w]
      convert_field_result [of e w self source input_fmt output_fmt]
    by blast
qed

theorem convert_field_dispatch_witness:
  "fst (convert_field demo_env empty_world stored_avatar (svg stored_avatar) ''svg'' ''png'') =
     Inr (Some \<lparr>fname = ''alice.png'', fdata = [0x89, 0x50]\<rparr>)
   \<and> fst (convert_field demo_env empty_world (stored_avatar\<lparr>profile := None\<rparr>)
            (png stored_avatar) ''png'' ''svg'') =
     Inr (Some \<lparr>fname = ''abababababababab.svg'', fdata = [0x3C, 0x73]\<rparr>)
   \<and> fst (convert_field convert_fails_env empty_world stored_avatar (svg stored_avatar)
            ''svg'' ''png'') = Inr None"
  using convert_field_dispatch [of demo_env empty_world stored_avatar "svg stored_avatar"
      "''svg''" "''png''"]
    convert_field_dispatch [of demo_env empty_world "stored_avatar\<lparr>profile := None\<rparr>"
      "png stored_avatar" "''png''" "''svg''"]
    convert_field_dispatch [of convert_fails_env empty_world stored_avatar "svg stored_avatar"
      "''svg''" "''png''"]
  by (simp add: demo_env_def convert_fails_env_def stored_avatar_def alice_def token_hex_def
        empty_world_def hexlify_def hexdigit_def upt_rec)

subsection \<open>Deduplication\<close>

lemma last_row_filter:
  "x \<in> set rows \<Longrightarrow> P x \<Longrightarrow> \<exists>r. last_row (filter P rows) = Some r \<and> r \<in> set rows \<and> P r"
proof -
  assume "x \<in> set rows" "P x"
  then have ne: "filter P rows \<noteq> []"
    by (auto simp: filter_empty_conv)
  then have "last (filter P rows) \<in> set (filter P rows)"
    by (rule last_in_set)
  with ne show ?thesis
    by (simp add: last_row_def)
qed

lemma find_similar_existing:
  assumes "hash self \<noteq> []" and "s \<in> set (db w)"
    and "filter_match (profile self) (hash self) s"
  shows "\<exists>r. find_similar w self = Some r \<and> r \<in> set (db w)
             \<and> filter_match (profile self) (hash self) r"
  using last_row_filter [OF assms(2), of "filter_match (profile self) (hash self)"] assms
  by (simp add: find_similar_def)

lemma token_hex_db: "db (snd (token_hex e n w)) = db w"
  by (simp add: token_hex_def)

lemma convert_field_db: "db (snd (convert_field e w self source input_fmt output_fmt)) = db w"
  by (simp add: convert_field_def convert_field_try_def token_hex_def
        split: sum.splits option.splits prod.splits)

lemma create_from_config_db: "db (snd (create_from_config e w self)) = db w"
  by (simp add: create_from_config_def token_hex_def
        split: sum.splits option.splits prod.splits)

lemma create_from_config_fields:
  "create_from_config e w self = (Inr a, w') \<Longrightarrow>
     profile a = profile self \<and> hash a = hash self \<and> png a = png self
     \<and> config a = config self \<and> avatar_id a = avatar_id self"
  by (auto simp: create_from_config_def split: sum.splits option.splits prod.splits if_splits)

lemma select_existing:
  assumes "hash self \<noteq> []" and "s \<in> set (db w)" and "filter_match p (hash self) s"
  shows "\<exists>r. select w self p = BaseAvatarObj r \<and> r \<in> set (db w) \<and> filter_match p (hash self) r"
proof -
  let ?new = "\<lparr>avatar_id = None, active = False, profile = p, svg = svg self, png = png self,
               hash = hash self, recommended_by_staff = False, config = config self\<rparr>"
  from find_similar_existing [of ?new s w] assms
  obtain r where "find_similar w ?new = Some r" "r \<in> set (db w)" "filter_match p (hash self) r"
    by auto
  then show ?thesis
    by (simp add: select_def)
qed

lemma github_avatar_existing:
  assumes "dhash e img = Inr h" and "h \<noteq> []" and "s \<in> set (db w)" and "filter_match p h s"
  shows "\<exists>r. github_avatar e w p img = (Inr (BaseAvatarObj r), w) \<and> r \<in> set (db w)
             \<and> filter_match p h r"
proof -
  from find_similar_existing [of "init_social p h" s w] assms
  obtain r where "find_similar w (init_social p h) = Some r" "r \<in> set (db w)" "filter_match p h r"
    by (auto simp: init_social_def)
  with assms(1) show ?thesis
    by (simp add: github_avatar_def calculate_hash_def)
qed

lemma create_try_hashed:
  assumes "convert_img e (svg a) ''svg'' ''png'' = Inr (Some v)"
    and "image_open e v = Inr img" and "dhash e img = Inr h"
  shows "\<exists>f w'. create_try e w a = (Inr (find_similar w' (a\<lparr>png := Some f, hash := h\<rparr>)),
                                     a\<lparr>png := Some f, hash := h\<rparr>, w')
               \<and> db w' = db w"
proof (cases "profile a")
  case None
  with assms show ?thesis
    by (simp add: create_try_def convert_field_def convert_field_try_def field_read_def
          field_file_def calculate_hash_def token_hex_def Let_def) blast
next
  case (Some x)
  with assms show ?thesis
    by (simp add: create_try_def convert_field_def convert_field_try_def field_read_def
          field_file_def calculate_hash_def Let_def) blast
qed

lemma create_existing:
  assumes cfc: "create_from_config e w (init_custom p cfg) = (Inr a, w1)"
    and conv: "convert_img e (svg a) ''svg'' ''png'' = Inr (Some v)"
    and opened: "image_open e v = Inr img" and hashed: "dhash e img = Inr h"
    and "h \<noteq> []" and "s \<in> set (db w)" and "filter_match p h s"
  shows "\<exists>r. fst (create e w p cfg) = Inr (BaseAvatarObj r) \<and> r \<in> set (db w)
             \<and> filter_match p h r \<and> db (snd (create e w p cfg)) = db w"
proof -
  have dbw1: "db w1 = db w"
    using create_from_config_db [of e w "init_custom p cfg"] cfc by simp
  have prof: "profile a = p"
    using create_from_config_fields [OF cfc] by (simp add: init_custom_def)
  from create_try_hashed [OF conv opened hashed, of w1]
  obtain f w2 where ct: "create_try e w1 a =
      (Inr (find_similar w2 (a\<lparr>png := Some f, hash := h\<rparr>)), a\<lparr>png := Some f, hash := h\<rparr>, w2)"
    and dbw2: "db w2 = db w1"
    by blast
  from find_similar_existing [of "a\<lparr>png := Some f, hash := h\<rparr>" s w2] assms(5-7) prof dbw1 dbw2
  obtain r where "find_similar w2 (a\<lparr>png := Some f, hash := h\<rparr>) = Some r"
    "r \<in> set (db w)" "filter_match p h r"
    by auto
  with cfc ct dbw1 dbw2 show ?thesis
    by (simp add: create_def)
qed


text \<open>
  Claim C1. Avatars are deduplicated through the hash. Let a stored avatar have the profile
  \<open>p\<close> and the non-empty hash \<open>h\<close>. Then each of the three operations, when the new
  avatar it builds has the hash \<open>h\<close>, answers a stored avatar of that profile and hash
  (the last one in the table) instead of the new one:
  \<^item> \<^verbatim>\<open>select\<close>, when the avatar selected from has the hash \<open>h\<close>;
  \<^item> \<^verbatim>\<open>github_avatar\<close>, when \<^verbatim>\<open>dhash\<close> of the image is \<open>h\<close>;
  \<^item> \<^verbatim>\<open>create\<close>, when the SVG was generated, and the PNG conversion, the opening
    of the image and \<^verbatim>\<open>dhash\<close> succeeded with \<open>h\<close> (that is how the hash of
    the new avatar gets set).
\<close>

theorem dedup_returns_existing:
  assumes "s \<in> set (db w)" and "filter_match p h s" and "h \<noteq> []"
  shows "(hash self = h \<longrightarrow>
            (\<exists>r. select w self p = BaseAvatarObj r \<and> r \<in> set (db w) \<and> filter_match p h r))
       \<and> (dhash e img = Inr h \<longrightarrow>
            (\<exists>r. github_avatar e w p img = (Inr (BaseAvatarObj r), w)
                 \<and> r \<in> set (db w) \<and> filter_match p h r))
       \<and> (create_from_config e w (init_custom p cfg) = (Inr a, w1)
            \<and> convert_img e (svg a) ''svg'' ''png'' = Inr (Some v)
            \<and> image_open e v = Inr img' \<and> dhash e img' = Inr h \<longrightarrow>
            (\<exists>r. fst (create e w p cfg) = Inr (BaseAvatarObj r)
                 \<and> r \<in> set (db w) \<and> filter_match p h r
                 \<and> db (snd (create e w p cfg)) = db w))"
proof (intro conjI impI)
  assume "hash self = h"
  with assms show "\<exists>r. select w self p = BaseAvatarObj r \<and> r \<in> set (db w) \<and> filter_match p h r"
    using select_existing [of self s w p] by simp
next
  assume "dhash e img = Inr h"
  with assms show "\<exists>r. github_avatar e w p img = (Inr (BaseAvatarObj r), w)
      \<and> r \<in> set (db w) \<and> filter_match p h r"
    using github_avatar_existing [of e img h s w p] by simp
next
  assume "create_from_config e w (init_custom p cfg) = (Inr a, w1)
      \<and> convert_img e (svg a) ''svg'' ''png'' = Inr (Some v)
      \<and> image_open e v = Inr img' \<and> dhash e img' = Inr h"
  with assms show "\<exists>r. fst (create e w p cfg) = Inr (BaseAvatarObj r)
      \<and> r \<in> set (db w) \<and> filter_match p h r \<and> db (snd (create e w p cfg)) = db w"
    using create_existing [of e w p cfg a w1 v img' h s] by simp
qed

lemma demo_cfc: "create_from_config demo_env stored_world (init_custom (Some alice) demo_config) =
         (Inr ((init_custom (Some alice) demo_config)
                 \<lparr>svg := Some \<lparr>fname = ''avatars/alice.svg'', fdata = [0x3C]\<rparr>\<rparr>), stored_world)"
  by (simp add: create_from_config_def components_def component_of_def demo_env_def
        demo_config_def init_custom_def alice_def py_get_def py_items_def fmt_def ICON_SIZE_def
        field_save_def)

theorem dedup_returns_existing_witness:
  "select stored_world ((init_custom None demo_config)\<lparr>hash := ''00ff00ff00ff00ff''\<rparr>)
       (Some alice) = BaseAvatarObj stored_avatar
   \<and> github_avatar demo_env stored_world (Some alice) 5 =
       (Inr (BaseAvatarObj stored_avatar), stored_world)
   \<and> fst (create demo_env stored_world (Some alice) demo_config) =
       Inr (BaseAvatarObj stored_avatar)"
proof -
  have stored: "stored_avatar \<in> set (db stored_world)"
    by (simp add: stored_world_def)
  have matches: "filter_match (Some alice) ''00ff00ff00ff00ff'' stored_avatar"
    by (simp add: filter_match_def stored_avatar_def)
  have set_hash: "''00ff00ff00ff00ff'' \<noteq> []"
    by simp
  have ext: "convert_img demo_env (svg ((init_custom (Some alice) demo_config)
                 \<lparr>svg := Some \<lparr>fname = ''avatars/alice.svg'', fdata = [0x3C]\<rparr>\<rparr>))
               ''svg'' ''png'' = Inr (Some [0x89, 0x50])
       \<and> image_open demo_env [0x89, 0x50] = Inr 1 \<and> dhash demo_env 1 = Inr ''00ff00ff00ff00ff''
       \<and> dhash demo_env 5 = Inr ''00ff00ff00ff00ff''"
    by (simp add: demo_env_def)
  have only: "\<And>r. r \<in> set (db stored_world) \<longleftrightarrow> r = stored_avatar"
    by (simp add: stored_world_def)
  show ?thesis
    using dedup_returns_existing [OF stored matches set_hash,
        of "(init_custom None demo_config)\<lparr>hash := ''00ff00ff00ff00ff''\<rparr>" demo_env 5
           demo_config "(init_custom (Some alice) demo_config)
                 \<lparr>svg := Some \<lparr>fname = ''avatars/alice.svg'', fdata = [0x3C]\<rparr>\<rparr>"
           stored_world "[0x89, 0x50]" 1]
      demo_cfc ext
    by (auto simp: only)
qed

subsection \<open>Social avatars\<close>

lemma find_similar_none:
  "\<forall>r\<in>set (db w). \<not> filter_match (profile self) (hash self) r \<Longrightarrow> find_similar w self = None"
  by (simp add: find_similar_def last_row_def filter_empty_conv)

lemma model_save_new:
  "avatar_id a = None \<Longrightarrow>
     model_save w a = (a\<lparr>avatar_id := Some (next_pk w)\<rparr>,
                       w\<lparr>db := db w @ [a\<lparr>avatar_id := Some (next_pk w)\<rparr>],
                          next_pk := Suc (next_pk w)\<rparr>)"
  by (simp add: model_save_def Let_def)

text \<open>
  Claim C7, as amended. For a profile that is not null and an image whose hashing and
  serialisation succeed, and for which no stored avatar has the same profile and hash,
  \<^verbatim>\<open>github_avatar\<close> returns a new social avatar of that profile whose hash is
  \<^verbatim>\<open>dhash\<close> of the image and whose PNG is the image's bytes saved under the name
  \<^verbatim>\<open><profile handle>.png\<close>. Its SVG is what converting that PNG from
  \<^verbatim>\<open>'png'\<close> to \<^verbatim>\<open>'svg'\<close> yields: the buffer of
  \<^verbatim>\<open>convert_wand\<close> under the name \<^verbatim>\<open><profile handle>.svg\<close> when the
  conversion succeeds, and \<^verbatim>\<open>None\<close> when it fails. The avatar is written to the
  table when the PNG is saved, before the SVG is set: the row written holds the PNG and no
  SVG.
\<close>

theorem github_avatar_png_and_converted_svg:
  assumes hashed: "dhash e img = Inr h"
    and bytes: "get_temp_image_file e img = Inr content"
    and fresh: "\<forall>r\<in>set (db w). \<not> filter_match (Some p) h r"
  shows "\<exists>a w'. github_avatar e w (Some p) img = (Inr (SocialAvatarObj a), w')
           \<and> profile a = Some p
           \<and> hash a = h
           \<and> png a = Some (field_save e (handle p @ ''.png'') content)
           \<and> svg a = (case convert_wand e (png a) ''png'' ''svg'' of
                         Inr (Some v) \<Rightarrow> Some \<lparr>fname = handle p @ ''.svg'', fdata = v\<rparr>
                       | _ \<Rightarrow> None)
           \<and> db w' = db w @ [a\<lparr>svg := None\<rparr>]"
proof -
  have none: "find_similar w (init_social (Some p) h) = None"
    using fresh by (intro find_similar_none) (simp add: init_social_def)
  show ?thesis
  proof (cases "convert_wand e (Some (field_save e (handle p @ ''.png'') content)) ''png'' ''svg''")
    case (Inl x)
    with hashed bytes none show ?thesis
      by (simp add: github_avatar_def calculate_hash_def model_save_def Let_def
            convert_field_def convert_field_try_def init_social_def)
  next
    case (Inr r)
    with hashed bytes none show ?thesis
      by (cases r)
         (simp_all add: github_avatar_def calculate_hash_def model_save_def Let_def
            convert_field_def convert_field_try_def init_social_def)
  qed
qed

theorem github_avatar_png_and_converted_svg_witness:
  "github_avatar demo_env empty_world (Some alice) 5 =
     (Inr (SocialAvatarObj
        \<lparr>avatar_id = Some 1, active = False, profile = Some alice,
         svg = Some \<lparr>fname = ''alice.svg'', fdata = [0x3C, 0x73]\<rparr>,
         png = Some \<lparr>fname = ''avatars/alice.png'', fdata = [0x89, 0x50, 0x4E]\<rparr>,
         hash = ''00ff00ff00ff00ff''\<rparr>),
      \<lparr>db = [\<lparr>avatar_id = Some 1, active = False, profile = Some alice, svg = None,
              png = Some \<lparr>fname = ''avatars/alice.png'', fdata = [0x89, 0x50, 0x4E]\<rparr>,
              hash = ''00ff00ff00ff00ff''\<rparr>],
       next_pk = 2, log_records = [], rng_pos = 0\<rparr>)"
proof -
  have hashed: "dhash demo_env 5 = Inr ''00ff00ff00ff00ff''"
    by (simp add: demo_env_def)
  have bytes: "get_temp_image_file demo_env 5 = Inr [0x89, 0x50, 0x4E]"
    by (simp add: demo_env_def)
  have fresh: "\<forall>r\<in>set (db empty_world). \<not> filter_match (Some alice) ''00ff00ff00ff00ff'' r"
    by (simp add: empty_world_def)
  have "github_avatar demo_env empty_world (Some alice) 5 =
     (Inr (SocialAvatarObj
        \<lparr>avatar_id = Some 1, active = False, profile = Some alice,
         svg = Some \<lparr>fname = ''alice.svg'', fdata = [0x3C, 0x73]\<rparr>,
         png = Some \<lparr>fname = ''avatars/alice.png'', fdata = [0x89, 0x50, 0x4E]\<rparr>,
         hash = ''00ff00ff00ff00ff''\<rparr>),
      \<lparr>db = [\<lparr>avatar_id = Some 1, active = False, profile = Some alice, svg = None,
              png = Some \<lparr>fname = ''avatars/alice.png'', fdata = [0x89, 0x50, 0x4E]\<rparr>,
              hash = ''00ff00ff00ff00ff''\<rparr>],
       next_pk = 2, log_records = [], rng_pos = 0\<rparr>)"
    by (simp add: github_avatar_def calculate_hash_def demo_env_def init_social_def
          find_similar_def empty_world_def last_row_def model_save_def field_save_def alice_def
          convert_field_def convert_field_try_def Let_def)
  then show ?thesis
    using github_avatar_png_and_converted_svg [OF hashed bytes fresh] by simp
qed

text \<open>
  The claim as stated, that the avatar is kept in both formats with the converted PNG as its
  SVG, fails when the conversion to SVG fails: \<^verbatim>\<open>convert_field\<close> logs the error
  and answers \<^verbatim>\<open>None\<close>, and the avatar returned, like the row written, has a PNG
  and no SVG.
\<close>

theorem github_avatar_without_svg:
  "github_avatar convert_fails_env empty_world (Some alice) 5 =
     (Inr (SocialAvatarObj
        \<lparr>avatar_id = Some 1, active = False, profile = Some alice,
         svg = None,
         png = Some \<lparr>fname = ''avatars/alice.png'', fdata = [0x89, 0x50, 0x4E]\<rparr>,
         hash = ''00ff00ff00ff00ff''\<rparr>),
      \<lparr>db = [\<lparr>avatar_id = Some 1, active = False, profile = Some alice, svg = None,
              png = Some \<lparr>fname = ''avatars/alice.png'', fdata = [0x89, 0x50, 0x4E]\<rparr>,
              hash = ''00ff00ff00ff00ff''\<rparr>],
       next_pk = 2,
       log_records =
         [LogRecord ERROR ''Error: (%s) - Avatar PK: (%s)''
            [StrOf (External ''cannot convert''), Pk (Some 1)]],
       rng_pos = 0\<rparr>)"
  by (simp add: github_avatar_def calculate_hash_def convert_fails_env_def demo_env_def
        init_social_def find_similar_def empty_world_def last_row_def model_save_def
        field_save_def alice_def convert_field_def convert_field_try_def Let_def)

subsection \<open>Composing the SVG\<close>

lemma build_layers_ok:
  "\<forall>kv\<in>set (layer_items items). \<exists>c. component_of e (snd kv) = Inr c \<Longrightarrow>
     \<exists>cs. build_layers e items acc = Inr (acc @ map Layer cs)
         \<and> map Inr cs = map (\<lambda>kv. component_of e (snd kv)) (layer_items items)"
proof (induction items arbitrary: acc)
  case Nil
  then show ?case by (simp add: layer_items_def)
next
  case (Cons kv items)
  obtain k v where kv: "kv = (k, v)" by (cases kv)
  have rest: "\<forall>kv\<in>set (layer_items items). \<exists>c. component_of e (snd kv) = Inr c"
    using Cons.prems by (auto simp: layer_items_def)
  show ?case
  proof (cases "k \<in> {''Background'', ''ClothingColor'', ''HairColor'', ''SkinTone''}")
    case True
    with Cons.IH [OF rest, of acc] kv show ?thesis
      by (auto simp: layer_items_def)
  next
    case False
    with Cons.prems kv obtain c where c: "component_of e v = Inr c"
      by (auto simp: layer_items_def)
    from Cons.IH [OF rest, of "acc @ [Layer c]"]
    obtain cs where "build_layers e items (acc @ [Layer c]) = Inr ((acc @ [Layer c]) @ map Layer cs)"
      and "map Inr cs = map (\<lambda>kv. component_of e (snd kv)) (layer_items items)"
      by blast
    with False kv c show ?thesis
      by (intro exI [of _ "c # cs"]) (simp add: layer_items_def)
  qed
qed

lemma component_of_dict:
  "component_of e (JObj kvs) =
     build_avatar_component e
       (fmt e (map_of kvs ''component_type'') @ ''/'' @ fmt e (map_of kvs ''svg_asset''))
       (215, 215)"
  by (simp add: component_of_def py_get_def ICON_SIZE_def)

lemma str_nat_215: "str_nat 215 = ''215''"
  by (simp add: str_nat.simps)

lemma components_ok:
  assumes "\<forall>kv\<in>set (layer_items items). \<exists>c. component_of e (snd kv) = Inr c"
  shows "\<exists>cs. components e (JObj items) =
             Inr \<lparr>fig_width = 215, fig_height = 215,
                  fig_elements =
                    Line [(0, 215 / 2), (215, 215 / 2)] ''215px''
                         (''#'' @ fmt e (map_of items ''Background''))
                    # map Layer cs\<rparr>
           \<and> map Inr cs = map (\<lambda>kv. component_of e (snd kv)) (layer_items items)"
proof -
  from build_layers_ok [OF assms,
      of "[Line [(0, 215 / 2), (215, 215 / 2)] ''215px'' (''#'' @ fmt e (map_of items ''Background''))]"]
  obtain cs where "build_layers e items
        [Line [(0, 215 / 2), (215, 215 / 2)] ''215px'' (''#'' @ fmt e (map_of items ''Background''))] =
      Inr ([Line [(0, 215 / 2), (215, 215 / 2)] ''215px'' (''#'' @ fmt e (map_of items ''Background''))]
             @ map Layer cs)"
    and "map Inr cs = map (\<lambda>kv. component_of e (snd kv)) (layer_items items)"
    by blast
  then show ?thesis
    by (intro exI [of _ cs])
       (simp add: components_def py_get_def py_items_def ICON_SIZE_def str_nat_215)
qed

lemma create_from_config_saves:
  assumes "components e (config self) = Inr fig" and "figure_save e fig = Inr content"
  shows "\<exists>a w'. create_from_config e w self = (Inr a, w') \<and> map_option fdata (svg a) = Some content"
  using assms
  by (auto simp: create_from_config_def field_save_def split: prod.splits option.splits)


text \<open>
  Claim C2. \<^verbatim>\<open>create_from_config\<close> assembles the SVG from a background and named
  layers. For every configuration dict whose layers can all be built, the figure composed
  has the icon size 215 by 215; its first element is the one background line, from
  \<open>(0, 215/2)\<close> to \<open>(215, 215/2)\<close>, of stroke width \<^verbatim>\<open>215px\<close> (the icon
  height) and of the colour \<^verbatim>\<open>#\<close> followed by the configuration's
  \<^verbatim>\<open>Background\<close> entry; the elements after it are, in the configuration's
  iteration order, one layer per key outside \<^verbatim>\<open>Background\<close>,
  \<^verbatim>\<open>ClothingColor\<close>, \<^verbatim>\<open>HairColor\<close> and \<^verbatim>\<open>SkinTone\<close>, each
  built from the path \<^verbatim>\<open><component_type>/<svg_asset>\<close> of its entry at the icon
  size. That figure is what the method saves as the avatar's SVG.
\<close>

theorem create_from_config_composes:
  assumes "\<forall>kv\<in>set (layer_items items). \<exists>c. component_of e (snd kv) = Inr c"
  shows "\<exists>cs fig.
           components e (JObj items) = Inr fig
         \<and> fig = \<lparr>fig_width = 215, fig_height = 215,
                   fig_elements =
                     Line [(0, 215 / 2), (215, 215 / 2)] ''215px''
                          (''#'' @ fmt e (map_of items ''Background''))
                     # map Layer cs\<rparr>
         \<and> map Inr cs = map (\<lambda>kv. component_of e (snd kv)) (layer_items items)
         \<and> (\<forall>kvs. component_of e (JObj kvs) =
                build_avatar_component e
                  (fmt e (map_of kvs ''component_type'') @ ''/'' @ fmt e (map_of kvs ''svg_asset''))
                  (215, 215))
         \<and> (\<forall>self w content.
                config self = JObj items \<and> figure_save e fig = Inr content \<longrightarrow>
                (\<exists>a w'. create_from_config e w self = (Inr a, w')
                       \<and> map_option fdata (svg a) = Some content))"
proof -
  from components_ok [OF assms]
  obtain cs where fig: "components e (JObj items) =
             Inr \<lparr>fig_width = 215, fig_height = 215,
                  fig_elements =
                    Line [(0, 215 / 2), (215, 215 / 2)] ''215px''
                         (''#'' @ fmt e (map_of items ''Background''))
                    # map Layer cs\<rparr>"
    and cs: "map Inr cs = map (\<lambda>kv. component_of e (snd kv)) (layer_items items)"
    by blast
  show ?thesis
    using fig cs component_of_dict [of e] create_from_config_saves [of e]
    by (intro exI [of _ cs] exI conjI) auto
qed

theorem create_from_config_composes_witness:
  "components demo_env demo_config =
     Inr \<lparr>fig_width = 215, fig_height = 215,
          fig_elements =
            [Line [(0, 215 / 2), (215, 215 / 2)] ''215px'' ''#25E899'',
             Layer ''HairStyle/0-Red.svg'', Layer ''Ears/1.svg'']\<rparr>"
proof -
  have built: "\<forall>kv\<in>set (layer_items
       [(''Background'', JStr ''25E899''),
        (''HairStyle'', JObj [(''component_type'', JStr ''HairStyle''),
                              (''svg_asset'', JStr ''0-Red.svg'')]),
        (''SkinTone'', JStr ''EEE3C1''),
        (''Ears'', JObj [(''component_type'', JStr ''Ears''),
                         (''svg_asset'', JStr ''1.svg'')])]).
       \<exists>c. component_of demo_env (snd kv) = Inr c"
    by (simp add: layer_items_def component_of_def py_get_def demo_env_def)
  show ?thesis
    using create_from_config_composes [OF built]
    by (auto simp: demo_config_def layer_items_def component_of_def py_get_def fmt_def
          demo_env_def map_eq_Cons_conv)
qed

subsection \<open>Where errors are caught\<close>

lemma convert_field_returns:
  "\<exists>r w'. convert_field e w self source input_fmt output_fmt = (Inr r, w')"
  by (simp add: convert_field_def split: prod.splits sum.splits)

lemma convert_field_logs:
  assumes "(if output_fmt = ''svg'' then convert_wand e source input_fmt output_fmt
            else convert_img e source input_fmt output_fmt) = Inl x"
  shows "convert_field e w self source input_fmt output_fmt =
           (Inr None,
            w\<lparr>log_records := log_records w @
                 [LogRecord ERROR ''Error: (%s) - Avatar PK: (%s)''
                    [StrOf x, Pk (avatar_id self)]]\<rparr>)"
  using assms by (simp add: convert_field_def convert_field_try_def split: if_splits)

lemma create_returns:
  assumes "create_from_config e w (init_custom p cfg) = (Inr a, w1)"
  shows "\<exists>obj w'. create e w p cfg = (Inr obj, w')"
proof (cases "create_try e w1 a")
  case (fields r a2 w2)
  with assms show ?thesis
    by (cases r) (auto simp: create_def split: option.splits)
qed

lemma create_warns:
  assumes "create_from_config e w (init_custom p cfg) = (Inr a, w1)"
    and "create_try e w1 a = (Inl x, a2, w2)"
  shows "create e w p cfg =
           (Inr (CustomAvatarObj a2),
            w2\<lparr>log_records := log_records w2 @
                  [LogRecord WARNING ''There was error during avatar conversion'' []]\<rparr>)"
  using assms by (simp add: create_def)

lemma create_propagates:
  assumes "create_from_config e w (init_custom p cfg) = (Inl x, w1)"
  shows "create e w p cfg = (Inl x, w1)"
  using assms by (simp add: create_def)

lemma github_avatar_hash_raises:
  "dhash e img = Inl x \<Longrightarrow> github_avatar e w p img = (Inl x, w)"
  by (simp add: github_avatar_def calculate_hash_def)

lemma github_avatar_bytes_raise:
  assumes "dhash e img = Inr h" and "find_similar w (init_social (Some q) h) = None"
    and "get_temp_image_file e img = Inl x"
  shows "github_avatar e w (Some q) img = (Inl x, w)"
  using assms by (simp add: github_avatar_def calculate_hash_def)

text \<open>
  Claim C4, as amended. Errors are caught where a handler stands, and only there.
  \<^item> \<^verbatim>\<open>convert_field\<close> never raises: an exception of the converter is logged
    as an error, with the avatar's primary key, and the answer is \<^verbatim>\<open>None\<close>.
  \<^item> \<^verbatim>\<open>create\<close> returns normally whenever \<^verbatim>\<open>create_from_config\<close>
    did: an exception raised inside its \<^verbatim>\<open>try\<close> block is answered by a logged
    warning and the avatar as it stands. An exception of
    \<^verbatim>\<open>create_from_config\<close>, which runs before the \<^verbatim>\<open>try\<close>, leaves
    \<^verbatim>\<open>create\<close> as it is.
  \<^item> \<^verbatim>\<open>github_avatar\<close> has no handler: an exception of \<^verbatim>\<open>dhash\<close> or
    of \<^verbatim>\<open>get_temp_image_file\<close> leaves the method as it is, and nothing is logged.
\<close>

theorem errors_caught_where_handled:
  "(\<exists>r w'. convert_field e w self source input_fmt output_fmt = (Inr r, w'))
   \<and> ((if output_fmt = ''svg'' then convert_wand e source input_fmt output_fmt
        else convert_img e source input_fmt output_fmt) = Inl x \<longrightarrow>
        convert_field e w self source input_fmt output_fmt =
          (Inr None,
           w\<lparr>log_records := log_records w @
                [LogRecord ERROR ''Error: (%s) - Avatar PK: (%s)''
                   [StrOf x, Pk (avatar_id self)]]\<rparr>))
   \<and> (create_from_config e w (init_custom p cfg) = (Inr a, w1) \<longrightarrow>
        (\<exists>obj w'. create e w p cfg = (Inr obj, w')))
   \<and> (create_from_config e w (init_custom p cfg) = (Inr a, w1)
        \<and> create_try e w1 a = (Inl x, a2, w2) \<longrightarrow>
        create e w p cfg =
          (Inr (CustomAvatarObj a2),
           w2\<lparr>log_records := log_records w2 @
                 [LogRecord WARNING ''There was error during avatar conversion'' []]\<rparr>))
   \<and> (create_from_config e w (init_custom p cfg) = (Inl x, w1) \<longrightarrow>
        create e w p cfg = (Inl x, w1))
   \<and> (dhash e img = Inl x \<longrightarrow> github_avatar e w p img = (Inl x, w))
   \<and> (dhash e img = Inr h \<and> find_similar w (init_social (Some q) h) = None
        \<and> get_temp_image_file e img = Inl x \<longrightarrow>
        github_avatar e w (Some q) img = (Inl x, w))"
  using convert_field_returns [of e w self source input_fmt output_fmt]
    convert_field_logs [of output_fmt e source input_fmt x w self]
    create_returns [of e w p cfg a w1]
    create_warns [of e w p cfg a w1 x a2 w2]
    create_propagates [of e w p cfg x w1]
    github_avatar_hash_raises [of e img x w p]
    github_avatar_bytes_raise [of e img h w q x]
  by blast


lemma demo_cfc_empty:
  "create_from_config e' empty_world (init_custom (Some alice) demo_config) =
     (Inr ((init_custom (Some alice) demo_config)
             \<lparr>svg := Some \<lparr>fname = ''avatars/alice.svg'', fdata = [0x3C]\<rparr>\<rparr>), empty_world)"
  if "e' = demo_env \<or> e' = convert_fails_env \<or> e' = hash_fails_env"
  using that
  by (auto simp: create_from_config_def components_def component_of_def demo_env_def
        convert_fails_env_def hash_fails_env_def
        demo_config_def init_custom_def alice_def py_get_def py_items_def fmt_def ICON_SIZE_def
        field_save_def)

theorem errors_caught_where_handled_witness:
  "convert_field convert_fails_env empty_world stored_avatar (svg stored_avatar) ''svg'' ''png'' =
     (Inr None,
      empty_world\<lparr>log_records :=
        [LogRecord ERROR ''Error: (%s) - Avatar PK: (%s)''
           [StrOf (External ''cannot convert''), Pk (Some 1)]]\<rparr>)
   \<and> create convert_fails_env empty_world (Some alice) demo_config =
     (Inr (CustomAvatarObj
        ((init_custom (Some alice) demo_config)
           \<lparr>svg := Some \<lparr>fname = ''avatars/alice.svg'', fdata = [0x3C]\<rparr>\<rparr>)),
      empty_world\<lparr>log_records :=
        [LogRecord ERROR ''Error: (%s) - Avatar PK: (%s)''
           [StrOf (External ''cannot convert''), Pk None],
         LogRecord WARNING ''There was error during avatar conversion'' []]\<rparr>)
   \<and> create demo_env empty_world (Some alice) (JObj [(''Ears'', JStr ''1.svg'')]) =
     (Inl AttributeError, empty_world)
   \<and> github_avatar hash_fails_env empty_world (Some alice) 5 =
     (Inl (External ''cannot hash''), empty_world)
   \<and> github_avatar bytes_fail_env empty_world (Some alice) 5 =
     (Inl (External ''cannot serialise''), empty_world)"
proof -
  let ?a = "(init_custom (Some alice) demo_config)
             \<lparr>svg := Some \<lparr>fname = ''avatars/alice.svg'', fdata = [0x3C]\<rparr>\<rparr>"
  let ?w2 = "empty_world\<lparr>log_records :=
        [LogRecord ERROR ''Error: (%s) - Avatar PK: (%s)''
           [StrOf (External ''cannot convert''), Pk None]]\<rparr>"
  have conv: "(if ''png'' = ''svg'' then convert_wand convert_fails_env (svg stored_avatar) ''svg'' ''png''
        else convert_img convert_fails_env (svg stored_avatar) ''svg'' ''png'') =
       Inl (External ''cannot convert'')"
    by (simp add: convert_fails_env_def)
  have cfc: "create_from_config convert_fails_env empty_world (init_custom (Some alice) demo_config) =
      (Inr ?a, empty_world)"
    by (simp add: demo_cfc_empty)
  have ct: "create_try convert_fails_env empty_world ?a = (Inl ValueError, ?a, ?w2)"
    by (simp add: create_try_def convert_field_def convert_field_try_def convert_fails_env_def
          init_custom_def field_read_def field_file_def empty_world_def)
  have bad: "create_from_config demo_env empty_world
        (init_custom (Some alice) (JObj [(''Ears'', JStr ''1.svg'')])) =
      (Inl AttributeError, empty_world)"
    by (simp add: create_from_config_def components_def component_of_def py_get_def
          py_items_def init_custom_def demo_env_def)
  have nohash: "dhash hash_fails_env 5 = Inl (External ''cannot hash'')"
    by (simp add: hash_fails_env_def)
  have nobytes: "dhash bytes_fail_env 5 = Inr ''00ff00ff00ff00ff''
      \<and> find_similar empty_world (init_social (Some alice) ''00ff00ff00ff00ff'') = None
      \<and> get_temp_image_file bytes_fail_env 5 = Inl (External ''cannot serialise'')"
    by (simp add: bytes_fail_env_def demo_env_def find_similar_def empty_world_def last_row_def)
  show ?thesis
    using errors_caught_where_handled [of convert_fails_env empty_world stored_avatar
        "svg stored_avatar" "''svg''" "''png''" "External ''cannot convert''"
        "Some alice" demo_config ?a empty_world]
      errors_caught_where_handled [of convert_fails_env empty_world stored_avatar
        "svg stored_avatar" "''svg''" "''png''" ValueError
        "Some alice" demo_config ?a empty_world ?a ?w2]
      errors_caught_where_handled [of demo_env empty_world stored_avatar
        "svg stored_avatar" "''svg''" "''png''" AttributeError
        "Some alice" "JObj [(''Ears'', JStr ''1.svg'')]" _ empty_world]
      errors_caught_where_handled [of hash_fails_env empty_world stored_avatar
        "svg stored_avatar" "''svg''" "''png''" "External ''cannot hash''"
        "Some alice" demo_config _ _ _ _ 5]
      errors_caught_where_handled [of bytes_fail_env empty_world stored_avatar
        "svg stored_avatar" "''svg''" "''png''" "External ''cannot serialise''"
        "Some alice" demo_config _ _ _ _ 5 "''00ff00ff00ff00ff''" alice]
      conv cfc ct bad nohash nobytes
    by (simp add: stored_avatar_def empty_world_def)
qed

text \<open>
  The claim as stated, that the three methods catch every exception, fails: a failing
  \<^verbatim>\<open>dhash\<close> escapes \<^verbatim>\<open>github_avatar\<close>, and a configuration whose
  entry is a string instead of a dict makes \<^verbatim>\<open>create\<close> raise the
  \<^verbatim>\<open>AttributeError\<close> of \<^verbatim>\<open>v.get\<close>.
\<close>

theorem errors_not_always_caught:
  "fst (github_avatar hash_fails_env empty_world (Some alice) 5) = Inl (External ''cannot hash'')
   \<and> fst (create demo_env empty_world (Some alice) (JObj [(''Ears'', JStr ''1.svg'')])) =
       Inl AttributeError"
  by (simp add: github_avatar_def calculate_hash_def hash_fails_env_def demo_env_def
        create_def create_from_config_def components_def component_of_def py_get_def
        py_items_def init_custom_def)

subsection \<open>Failures inside create\<close>

lemma create_from_config_svg:
  "create_from_config e w self = (Inr a, w') \<Longrightarrow> \<exists>f. svg a = Some f"
  by (auto simp: create_from_config_def split: sum.splits option.splits prod.splits if_splits)

lemma create_try_conversion_fails:
  assumes "convert_img e (svg a) ''svg'' ''png'' = Inl x
           \<or> convert_img e (svg a) ''svg'' ''png'' = Inr None"
  shows "\<exists>w'. create_try e w a = (Inl ValueError, a\<lparr>png := None\<rparr>, w')"
  using assms
  by (auto simp: create_try_def convert_field_def convert_field_try_def field_read_def
        field_file_def Let_def split: option.splits prod.splits)

lemma create_try_hash_fails:
  assumes "convert_img e (svg a) ''svg'' ''png'' = Inr (Some v)"
    and "image_open e v = Inl x \<or> (image_open e v = Inr img \<and> dhash e img = Inl x)"
  shows "\<exists>f w'. create_try e w a = (Inl x, a\<lparr>png := Some f\<rparr>, w') \<and> fdata f = v"
  using assms
  by (auto simp: create_try_def convert_field_def convert_field_try_def field_read_def
        field_file_def calculate_hash_def Let_def split: option.splits prod.splits)

text \<open>
  Claim C6, as amended. A failure inside the \<^verbatim>\<open>try\<close> of \<^verbatim>\<open>create\<close>
  does not lose the avatar. Once \<^verbatim>\<open>create_from_config\<close> has generated the SVG,
  the new avatar has the given profile and configuration, its SVG, no PNG and the empty hash.
  \<^item> If the PNG conversion fails (the converter raises, or yields nothing),
    \<^verbatim>\<open>create\<close> logs a warning and returns that avatar unchanged: the PNG and the
    hash are as before the conversion.
  \<^item> If the conversion succeeds and opening the image or hashing it raises,
    \<^verbatim>\<open>create\<close> logs a warning and returns that avatar with the converted PNG set;
    the hash is still empty.
  In both cases the answer is the new avatar whatever the table holds: no lookup is applied.
\<close>

theorem create_keeps_avatar_on_failure:
  assumes cfc: "create_from_config e w (init_custom p cfg) = (Inr a, w1)"
  shows "profile a = p \<and> config a = cfg \<and> (\<exists>f. svg a = Some f) \<and> png a = None \<and> hash a = []
       \<and> (convert_img e (svg a) ''svg'' ''png'' = Inl x
           \<or> convert_img e (svg a) ''svg'' ''png'' = Inr None \<longrightarrow>
            (\<exists>w'. create e w p cfg = (Inr (CustomAvatarObj a), w')
                 \<and> last (log_records w') =
                     LogRecord WARNING ''There was error during avatar conversion'' []))
       \<and> (convert_img e (svg a) ''svg'' ''png'' = Inr (Some v)
           \<and> (image_open e v = Inl x \<or> (image_open e v = Inr img \<and> dhash e img = Inl x)) \<longrightarrow>
            (\<exists>f w'. create e w p cfg = (Inr (CustomAvatarObj (a\<lparr>png := Some f\<rparr>)), w')
                   \<and> fdata f = v
                   \<and> last (log_records w') =
                       LogRecord WARNING ''There was error during avatar conversion'' []))"
proof -
  have fields: "profile a = p \<and> config a = cfg \<and> png a = None \<and> hash a = []"
    using create_from_config_fields [OF cfc] by (simp add: init_custom_def)
  then have same: "a\<lparr>png := None\<rparr> = a"
    by simp
  have svg: "\<exists>f. svg a = Some f"
    using create_from_config_svg [OF cfc] .
  have conv: "\<exists>w'. create e w p cfg = (Inr (CustomAvatarObj a), w')
                 \<and> last (log_records w') =
                     LogRecord WARNING ''There was error during avatar conversion'' []"
    if "convert_img e (svg a) ''svg'' ''png'' = Inl x
        \<or> convert_img e (svg a) ''svg'' ''png'' = Inr None"
  proof -
    from create_try_conversion_fails [OF that, of w1] same
    obtain w2 where "create_try e w1 a = (Inl ValueError, a, w2)"
      by auto
    with cfc show ?thesis
      by (simp add: create_def)
  qed
  have hashf: "\<exists>f w'. create e w p cfg = (Inr (CustomAvatarObj (a\<lparr>png := Some f\<rparr>)), w')
                   \<and> fdata f = v
                   \<and> last (log_records w') =
                       LogRecord WARNING ''There was error during avatar conversion'' []"
    if "convert_img e (svg a) ''svg'' ''png'' = Inr (Some v)"
      and "image_open e v = Inl x \<or> (image_open e v = Inr img \<and> dhash e img = Inl x)"
  proof -
    from create_try_hash_fails [OF that, of w1]
    obtain f w2 where "create_try e w1 a = (Inl x, a\<lparr>png := Some f\<rparr>, w2)" "fdata f = v"
      by blast
    with cfc show ?thesis
      by (intro exI [of _ f]) (simp add: create_def)
  qed
  from fields svg conv hashf show ?thesis
    by blast
qed

theorem create_keeps_avatar_on_failure_witness:
  "(\<exists>w'. create convert_fails_env empty_world (Some alice) demo_config =
      (Inr (CustomAvatarObj
         ((init_custom (Some alice) demo_config)
            \<lparr>svg := Some \<lparr>fname = ''avatars/alice.svg'', fdata = [0x3C]\<rparr>\<rparr>)), w')
      \<and> last (log_records w') =
            LogRecord WARNING ''There was error during avatar conversion'' [])
   \<and> (\<exists>f w'. create hash_fails_env empty_world (Some alice) demo_config =
      (Inr (CustomAvatarObj
         ((init_custom (Some alice) demo_config)
            \<lparr>svg := Some \<lparr>fname = ''avatars/alice.svg'', fdata = [0x3C]\<rparr>,
             png := Some f\<rparr>)), w')
      \<and> fdata f = [0x89, 0x50]
      \<and> last (log_records w') =
            LogRecord WARNING ''There was error during avatar conversion'' [])"
proof -
  let ?a = "(init_custom (Some alice) demo_config)
             \<lparr>svg := Some \<lparr>fname = ''avatars/alice.svg'', fdata = [0x3C]\<rparr>\<rparr>"
  have cfc1: "create_from_config convert_fails_env empty_world
       (init_custom (Some alice) demo_config) = (Inr ?a, empty_world)"
    by (simp add: demo_cfc_empty)
  have cfc2: "create_from_config hash_fails_env empty_world
       (init_custom (Some alice) demo_config) = (Inr ?a, empty_world)"
    by (simp add: demo_cfc_empty)
  have conv: "convert_img convert_fails_env (svg ?a) ''svg'' ''png'' =
       Inl (External ''cannot convert'')"
    by (simp add: convert_fails_env_def)
  have hashf: "convert_img hash_fails_env (svg ?a) ''svg'' ''png'' = Inr (Some [0x89, 0x50])
      \<and> image_open hash_fails_env [0x89, 0x50] = Inr 1
      \<and> dhash hash_fails_env 1 = Inl (External ''cannot hash'')"
    by (simp add: hash_fails_env_def demo_env_def)
  show ?thesis
    using create_keeps_avatar_on_failure [OF cfc1, of "External ''cannot convert''"]
      create_keeps_avatar_on_failure [OF cfc2, of "External ''cannot hash''" "[0x89, 0x50]" 1]
      conv hashf
    by simp
qed

text \<open>
  The claim as stated, that the PNG is left at its value before the conversion, fails when
  only the hash computation raises: the avatar returned carries the converted PNG.
\<close>

theorem create_png_set_when_hash_fails:
  "create hash_fails_env stored_world (Some alice) demo_config =
     (Inr (CustomAvatarObj
        \<lparr>avatar_id = None, active = False, profile = Some alice,
         svg = Some \<lparr>fname = ''avatars/alice.svg'', fdata = [0x3C]\<rparr>,
         png = Some \<lparr>fname = ''alice.png'', fdata = [0x89, 0x50]\<rparr>,
         hash = [], recommended_by_staff = False, config = demo_config\<rparr>),
      stored_world\<lparr>log_records :=
        [LogRecord WARNING ''There was error during avatar conversion'' []]\<rparr>)"
  by (simp add: create_def create_from_config_def components_def component_of_def
        hash_fails_env_def demo_env_def demo_config_def init_custom_def alice_def py_get_def
        py_items_def fmt_def ICON_SIZE_def field_save_def create_try_def convert_field_def
        convert_field_try_def field_read_def field_file_def calculate_hash_def stored_world_def)

subsection \<open>The fields of the records produced\<close>

lemma create_try_keeps:
  "create_try e w a = (r, a2, w2) \<Longrightarrow>
     profile a2 = profile a \<and> config a2 = config a \<and> svg a2 = svg a"
  by (auto simp: create_try_def Let_def split: prod.splits sum.splits)

lemma create_new_fields:
  assumes "create e w p cfg = (Inr (CustomAvatarObj a), w')"
  shows "profile a = p \<and> config a = cfg \<and> (\<exists>f. svg a = Some f)"
proof (cases "create_from_config e w (init_custom p cfg)")
  case (Pair r w1)
  show ?thesis
  proof (cases r)
    case (Inl x)
    with Pair assms show ?thesis
      by (simp add: create_def)
  next
    case (Inr a1)
    with Pair have cfc: "create_from_config e w (init_custom p cfg) = (Inr a1, w1)"
      by simp
    have a1: "profile a1 = p \<and> config a1 = cfg \<and> (\<exists>f. svg a1 = Some f)"
      using create_from_config_fields [OF cfc] create_from_config_svg [OF cfc]
      by (simp add: init_custom_def)
    obtain r2 a2 w2 where ct: "create_try e w1 a1 = (r2, a2, w2)"
      by (cases "create_try e w1 a1")
    with cfc assms have "a = a2"
      by (auto simp: create_def split: sum.splits option.splits)
    with create_try_keeps [OF ct] a1 show ?thesis
      by simp
  qed
qed

lemma select_new_fields:
  "select w self p = CustomAvatarObj b \<Longrightarrow>
     profile b = p \<and> config b = config self \<and> svg b = svg self \<and> png b = png self
     \<and> hash b = hash self"
  by (auto simp: select_def Let_def split: option.splits)

lemma github_avatar_new_fields:
  assumes "github_avatar e w p img = (Inr (SocialAvatarObj c), w')"
  shows "(\<exists>q. p = Some q \<and> profile c = Some q) \<and> dhash e img = Inr (hash c)
       \<and> (\<exists>f. png c = Some f)"
  using assms
  by (auto simp: github_avatar_def calculate_hash_def model_save_def init_social_def Let_def
        convert_field_def
        split: sum.splits option.splits prod.splits)

text \<open>
  Claim C5, as amended. An avatar record has the fields profile, SVG, PNG and hash, and a
  custom avatar a configuration; the profile, the SVG and the PNG may be null and the hash
  empty. What the operations set on a record they newly build:
  \<^item> \<^verbatim>\<open>create\<close>: the given profile (which may be none) and configuration,
    and an SVG;
  \<^item> \<^verbatim>\<open>select\<close>: the given profile, and the configuration, SVG, PNG and hash
    of the avatar selected from;
  \<^item> \<^verbatim>\<open>github_avatar\<close>: a profile that is not null, the
    \<^verbatim>\<open>dhash\<close> of the image as hash, and a PNG.
\<close>

theorem new_records_fields:
  "(create e w p cfg = (Inr (CustomAvatarObj a), w') \<longrightarrow>
      profile a = p \<and> config a = cfg \<and> (\<exists>f. svg a = Some f))
   \<and> (select w self p = CustomAvatarObj b \<longrightarrow>
      profile b = p \<and> config b = config self \<and> svg b = svg self \<and> png b = png self
      \<and> hash b = hash self)
   \<and> (github_avatar e w p img = (Inr (SocialAvatarObj c), w'') \<longrightarrow>
      (\<exists>q. p = Some q \<and> profile c = Some q) \<and> dhash e img = Inr (hash c)
      \<and> (\<exists>f. png c = Some f))"
  using create_new_fields [of e w p cfg a w'] select_new_fields [of w self p b]
    github_avatar_new_fields [of e w p img c w'']
  by blast

theorem new_records_fields_witness:
  "create demo_env empty_world (Some alice) demo_config =
     (Inr (CustomAvatarObj
        \<lparr>avatar_id = None, active = False, profile = Some alice,
         svg = Some \<lparr>fname = ''avatars/alice.svg'', fdata = [0x3C]\<rparr>,
         png = Some \<lparr>fname = ''alice.png'', fdata = [0x89, 0x50]\<rparr>,
         hash = ''00ff00ff00ff00ff'', recommended_by_staff = False, config = demo_config\<rparr>),
      empty_world)
   \<and> select empty_world (init_custom None demo_config) (Some alice) =
       CustomAvatarObj (init_custom (Some alice) demo_config)
   \<and> github_avatar demo_env empty_world (Some alice) 5 =
     (Inr (SocialAvatarObj
        \<lparr>avatar_id = Some 1, active = False, profile = Some alice,
         svg = Some \<lparr>fname = ''alice.svg'', fdata = [0x3C, 0x73]\<rparr>,
         png = Some \<lparr>fname = ''avatars/alice.png'', fdata = [0x89, 0x50, 0x4E]\<rparr>,
         hash = ''00ff00ff00ff00ff''\<rparr>),
      \<lparr>db = [\<lparr>avatar_id = Some 1, active = False, profile = Some alice, svg = None,
              png = Some \<lparr>fname = ''avatars/alice.png'', fdata = [0x89, 0x50, 0x4E]\<rparr>,
              hash = ''00ff00ff00ff00ff''\<rparr>],
       next_pk = 2, log_records = [], rng_pos = 0\<rparr>)
   \<and> dhash demo_env 5 = Inr ''00ff00ff00ff00ff''"
proof -
  let ?A = "\<lparr>avatar_id = None, active = False, profile = Some alice,
         svg = Some \<lparr>fname = ''avatars/alice.svg'', fdata = [0x3C]\<rparr>,
         png = Some \<lparr>fname = ''alice.png'', fdata = [0x89, 0x50]\<rparr>,
         hash = ''00ff00ff00ff00ff'', recommended_by_staff = False, config = demo_config\<rparr>"
  let ?C = "\<lparr>avatar_id = Some 1, active = False, profile = Some alice,
         svg = Some \<lparr>fname = ''alice.svg'', fdata = [0x3C, 0x73]\<rparr>,
         png = Some \<lparr>fname = ''avatars/alice.png'', fdata = [0x89, 0x50, 0x4E]\<rparr>,
         hash = ''00ff00ff00ff00ff''\<rparr>"
  let ?W = "\<lparr>db = [\<lparr>avatar_id = Some 1, active = False, profile = Some alice, svg = None,
              png = Some \<lparr>fname = ''avatars/alice.png'', fdata = [0x89, 0x50, 0x4E]\<rparr>,
              hash = ''00ff00ff00ff00ff''\<rparr>],
       next_pk = 2, log_records = [], rng_pos = 0\<rparr>"
  have c: "create demo_env empty_world (Some alice) demo_config =
      (Inr (CustomAvatarObj ?A), empty_world)"
    by (simp add: create_def create_from_config_def components_def component_of_def
          demo_env_def demo_config_def init_custom_def alice_def py_get_def py_items_def
          fmt_def ICON_SIZE_def field_save_def create_try_def convert_field_def
          convert_field_try_def field_read_def field_file_def calculate_hash_def
          find_similar_def last_row_def empty_world_def)
  have s: "select empty_world (init_custom None demo_config) (Some alice) =
      CustomAvatarObj (init_custom (Some alice) demo_config)"
    by (simp add: select_def find_similar_def init_custom_def)
  have g: "github_avatar demo_env empty_world (Some alice) 5 = (Inr (SocialAvatarObj ?C), ?W)"
    by (simp add: github_avatar_def calculate_hash_def demo_env_def init_social_def
          find_similar_def empty_world_def last_row_def model_save_def field_save_def alice_def
          convert_field_def convert_field_try_def Let_def)
  show ?thesis
    using new_records_fields [of demo_env empty_world "Some alice" demo_config ?A empty_world
        "init_custom None demo_config" "init_custom (Some alice) demo_config" 5 ?C ?W]
      c s g
    by simp
qed

text \<open>
  The claim as stated, that every record produced has an owning profile, a PNG and a hash,
  fails: \<^verbatim>\<open>create\<close> without a profile, when the PNG conversion fails, returns a
  record with no profile, no PNG and the empty hash.
\<close>

theorem record_without_profile_png_hash:
  "create convert_fails_env empty_world None demo_config =
     (Inr (CustomAvatarObj
        \<lparr>avatar_id = None, active = False, profile = None,
         svg = Some \<lparr>fname = ''avatars/abababababababab.svg'', fdata = [0x3C]\<rparr>,
         png = None, hash = [], recommended_by_staff = False, config = demo_config\<rparr>),
      \<lparr>db = [], next_pk = 1,
       log_records =
         [LogRecord ERROR ''Error: (%s) - Avatar PK: (%s)''
            [StrOf (External ''cannot convert''), Pk None],
          LogRecord WARNING ''There was error during avatar conversion'' []],
       rng_pos = 8\<rparr>)"
  by (simp add: create_def create_from_config_def components_def component_of_def
        convert_fails_env_def demo_env_def demo_config_def init_custom_def py_get_def
        py_items_def fmt_def ICON_SIZE_def field_save_def create_try_def convert_field_def
        convert_field_try_def field_read_def field_file_def empty_world_def token_hex_def
        hexlify_def hexdigit_def upt_rec)

end
